theory Spec2Isabelle
  imports Complex_Main
begin

section \<open>EDFConverter (src/edf_converter.py)\<close>

text \<open>
  The class \<^verbatim>\<open>EDFConverter\<close> wraps a recording loaded by the mne package and exports it
  as CSV, JSON or a NumPy archive. The package is not part of the repository, so what
  it hands to the class is data of the model and what it computes is a parameter:
  \<^item> the loaded recording (\<^verbatim>\<open>mne.io.Raw\<close>) is a record of the attributes the class
    reads;
  \<^item> \<^verbatim>\<open>mne.io.read_raw_edf\<close> and \<^verbatim>\<open>mne.pick_channels\<close> are function parameters;
  \<^item> the file system is a map from paths to what was written, with a predicate saying
    which paths can be opened for writing.
  Samples and time stamps are real numbers (binary64 in the program); no theorem below
  depends on rounding.
\<close>

subsection \<open>Exceptions\<close>

text \<open>
  The classes raised by the code (\<^verbatim>\<open>FileNotFoundError\<close>, \<^verbatim>\<open>ValueError\<close>), by indexing
  (\<^verbatim>\<open>IndexError\<close>) and by opening a file (\<^verbatim>\<open>OSError\<close>). \<open>UnknownChannelError\<close> is the
  class named by the specification; only \<open>pick_channels\<close> below, which is modelled from
  the specification, raises it.
\<close>

datatype error =
    FileNotFoundError string
  | ValueError string
  | IndexError
  | OSError
  | UnknownChannelError string "string list"

subsection \<open>The loaded recording\<close>

text \<open>
  \<open>raw_data\<close> is the array returned by \<^verbatim>\<open>raw.get_data()\<close>, one row per channel;
  \<open>raw_times\<close> is \<^verbatim>\<open>raw.times\<close>; \<open>sfreq\<close> and \<open>meas_date\<close> are the entries of
  \<^verbatim>\<open>raw.info\<close> (\<open>meas_date\<close> already as the text \<^verbatim>\<open>str\<close> gives).
\<close>

record Raw =
  ch_names :: "string list"
  sfreq :: real
  meas_date :: "string option"
  raw_times :: "real list"
  raw_data :: "real list list"

text \<open>
  What the docstring of \<^verbatim>\<open>get_data\<close> (line 71) says of the array: shape
  \<^verbatim>\<open>(n_channels, n_samples)\<close>, one row per channel name and every row as long as the time
  axis.
\<close>

definition rectangular :: "Raw \<Rightarrow> bool" where
  "rectangular r \<longleftrightarrow>
     length (raw_data r) = length (ch_names r) \<and>
     (\<forall>row \<in> set (raw_data r). length row = length (raw_times r))"

text \<open>
  Modelled from the spec: \<^verbatim>\<open>raw.times\<close> is computed inside mne, which is not under src/.
  Section 3 of the specification describes the time axis as having a "uniform step
  derived from the highest per-record sampling rate", starting with the first sample:
  sample \<open>k\<close> is stamped \<open>k / sfreq\<close>.
\<close>

definition uniform_time_axis :: "Raw \<Rightarrow> bool" where
  "uniform_time_axis r \<longleftrightarrow>
     raw_times r = map (\<lambda>k. real k / sfreq r) [0..<length (raw_times r)]"

record EDFConverter =
  filepath :: string
  raw :: Raw

subsection \<open>Channel picking\<close>

type_synonym picker = "string list \<Rightarrow> string list \<Rightarrow> error + nat list"

fun index_of :: "'a list \<Rightarrow> 'a \<Rightarrow> nat" where
  "index_of [] x = 0"
| "index_of (y # ys) x = (if x = y then 0 else Suc (index_of ys x))"

text \<open>
  Modelled from the spec: \<^verbatim>\<open>mne.pick_channels\<close> (called at line 74) is a function of the
  mne package, which is not under src/. Section 4.5 of the specification: "an explicit
  ordered list of labels restricts export to those channels, preserving the caller-given
  order (not the descriptor's); an unknown label fails with UnknownChannelError naming
  the offending label and listing valid ones."
\<close>

fun pick_channels :: picker where
  "pick_channels names [] = Inr []"
| "pick_channels names (l # ls) =
     (if l \<in> set names
      then (case pick_channels names ls of
              Inl e \<Rightarrow> Inl e
            | Inr ps \<Rightarrow> Inr (index_of names l # ps))
      else Inl (UnknownChannelError l names))"

text \<open>
  \<^verbatim>\<open>raw.get_data(picks=picks)\<close>: the rows of the stored array at the picked indices, in
  the order of the picks. mne refuses an empty selection (\<^verbatim>\<open>ValueError\<close>, message
  abbreviated) and an index beyond the last channel.
\<close>

definition raw_get_data :: "Raw \<Rightarrow> nat list \<Rightarrow> error + real list list" where
  "raw_get_data r picks =
     (if picks = [] then Inl (ValueError ''No appropriate channels found for the given picks'')
      else if \<exists>p \<in> set picks. length (raw_data r) \<le> p then Inl IndexError
      else Inr (map (\<lambda>p. raw_data r ! p) picks))"

subsection \<open>Construction (lines 24-42)\<close>


subsection \<open>Queries (lines 44-80, 193-210)\<close>

record info =
  filename :: string
  n_channels :: nat
  channel_names :: "string list"
  sampling_rate :: real
  duration_seconds :: real
  n_samples :: nat
  measurement_date :: "string option"

text \<open>
  \<^verbatim>\<open>Path(p).name\<close> on a POSIX path: the last component once empty and \<^verbatim>\<open>.\<close> components are
  dropped, the empty string when none is left.
\<close>

fun split_path :: "string \<Rightarrow> string \<Rightarrow> string list" where
  "split_path cur [] = [cur]"
| "split_path cur (c # cs) =
     (if c = CHR ''/'' then cur # split_path [] cs else split_path (cur @ [c]) cs)"

definition path_name :: "string \<Rightarrow> string" where
  "path_name p =
     (case filter (\<lambda>s. s \<noteq> [] \<and> s \<noteq> ''.'') (split_path [] p) of
        [] \<Rightarrow> []
      | s # ss \<Rightarrow> last (s # ss))"

text \<open>\<^verbatim>\<open>raw.times[-1]\<close> raises \<^verbatim>\<open>IndexError\<close> on an empty time axis.\<close>

definition get_info :: "EDFConverter \<Rightarrow> error + info" where
  "get_info slf =
     (if raw_times (raw slf) = [] then Inl IndexError
      else Inr \<lparr>filename = path_name (filepath slf),
                n_channels = length (ch_names (raw slf)),
                channel_names = ch_names (raw slf),
                sampling_rate = sfreq (raw slf),
                duration_seconds = last (raw_times (raw slf)),
                n_samples = length (raw_times (raw slf)),
                measurement_date = meas_date (raw slf)\<rparr>)"

text \<open>
  \<^verbatim>\<open>if channels:\<close> is false for \<^verbatim>\<open>None\<close> and for the empty list, so only a non-empty list
  reaches \<^verbatim>\<open>mne.pick_channels\<close>.
\<close>

fun get_data ::
  "picker \<Rightarrow> EDFConverter \<Rightarrow> string list option \<Rightarrow> error + (real list list \<times> real list)" where
  "get_data pick slf (Some (l # ls)) =
     (case pick (ch_names (raw slf)) (l # ls) of
        Inl e \<Rightarrow> Inl e
      | Inr picks \<Rightarrow>
          (case raw_get_data (raw slf) picks of
             Inl e \<Rightarrow> Inl e
           | Inr d \<Rightarrow> Inr (d, raw_times (raw slf))))"
| "get_data pick slf (Some []) = Inr (raw_data (raw slf), raw_times (raw slf))"
| "get_data pick slf None = Inr (raw_data (raw slf), raw_times (raw slf))"

text \<open>
  The block "Get channel names" of the three exporters (lines 95-98, 129-132, 165-168).
\<close>

fun export_names :: "EDFConverter \<Rightarrow> string list option \<Rightarrow> string list" where
  "export_names slf (Some (l # ls)) = l # ls"
| "export_names slf (Some []) = ch_names (raw slf)"
| "export_names slf None = ch_names (raw slf)"

text \<open>
  \<^verbatim>\<open>f"Channel '{channel_name}' ..."\<close> inserts the name as it is, between two apostrophes.
\<close>

definition quoted :: "string \<Rightarrow> string" where
  "quoted s = [CHR 0x27] @ s @ [CHR 0x27]"

text \<open>
  \<^verbatim>\<open>repr\<close> of a string of ASCII characters, which is what the f-string prints for each
  element of the list of labels: double quotes when the string has an apostrophe and no
  double quote, apostrophes otherwise; the chosen quote and the backslash are escaped
  with a backslash; tab, line feed and carriage return become \<^verbatim>\<open>\t\<close>, \<^verbatim>\<open>\n\<close>, \<^verbatim>\<open>\r\<close>, the
  other control characters and DEL \<^verbatim>\<open>\xhh\<close>. Characters beyond ASCII are outside the model
  (EDF header fields are ASCII).
\<close>

definition ascii :: "string \<Rightarrow> bool" where
  "ascii s \<longleftrightarrow> (\<forall>c \<in> set s. (of_char c :: nat) < 128)"

definition py_quote :: "string \<Rightarrow> char" where
  "py_quote s = (if CHR 0x27 \<in> set s \<and> CHR 0x22 \<notin> set s then CHR 0x22 else CHR 0x27)"

definition hex_digit :: "nat \<Rightarrow> char" where
  "hex_digit n = (''0123456789abcdef'') ! n"

definition py_escape :: "char \<Rightarrow> char \<Rightarrow> string" where
  "py_escape q c =
     (if c = q \<or> c = CHR 0x5C then [CHR 0x5C, c]
      else if c = CHR 0x09 then [CHR 0x5C, CHR ''t'']
      else if c = CHR 0x0A then [CHR 0x5C, CHR ''n'']
      else if c = CHR 0x0D then [CHR 0x5C, CHR ''r'']
      else if (of_char c :: nat) < 32 \<or> (of_char c :: nat) = 127
      then [CHR 0x5C, CHR ''x'', hex_digit ((of_char c :: nat) div 16),
            hex_digit ((of_char c :: nat) mod 16)]
      else [c])"

definition py_repr :: "string \<Rightarrow> string" where
  "py_repr s = [py_quote s] @ concat (map (py_escape (py_quote s)) s) @ [py_quote s]"

fun join_comma :: "string list \<Rightarrow> string" where
  "join_comma [] = []"
| "join_comma [s] = s"
| "join_comma (s # t # ts) = s @ '', '' @ join_comma (t # ts)"

definition repr_list :: "string list \<Rightarrow> string" where
  "repr_list ls = ''['' @ join_comma (map py_repr ls) @ '']''"

definition not_found_message :: "string \<Rightarrow> string list \<Rightarrow> string" where
  "not_found_message channel_name names =
     ''Channel '' @ quoted channel_name @ '' not found. Available channels: '' @ repr_list names"

definition get_channel_data ::
  "picker \<Rightarrow> EDFConverter \<Rightarrow> string \<Rightarrow> error + (real list \<times> real list)" where
  "get_channel_data pick slf channel_name =
     (if channel_name \<notin> set (ch_names (raw slf))
      then Inl (ValueError (not_found_message channel_name (ch_names (raw slf))))
      else (case get_data pick slf (Some [channel_name]) of
              Inl e \<Rightarrow> Inl e
            | Inr (d, ts) \<Rightarrow>
                (case d of [] \<Rightarrow> Inl IndexError | row # rest \<Rightarrow> Inr (row, ts))))"

subsection \<open>What the exporters write\<close>

text \<open>
  A CSV file is the list of rows handed to \<^verbatim>\<open>writer.writerow\<close>; a cell is a label or a
  number. A JSON file is the object handed to \<^verbatim>\<open>json.dump\<close>, its \<open>channels\<close> a dictionary
  in insertion order. An archive is the list of named entries handed to
  \<^verbatim>\<open>np.savez_compressed\<close>.
\<close>

datatype cell = Str string | Num real

record json_doc =
  metadata :: "info option"
  data_times :: "real list"
  data_channels :: "(string \<times> real list) list"

datatype npz_entry =
    Matrix "real list list"
  | Vector "real list"
  | Names "string list"
  | Scalar real

datatype content =
    CSV "cell list list"
  | JSON json_doc
  | NPZ "(string \<times> npz_entry) list"

record world =
  self :: EDFConverter
  files :: "string \<Rightarrow> content option"
  writable :: "string \<Rightarrow> bool"
  stdout :: "string list"

subsection \<open>CSV (lines 82-114)\<close>

text \<open>
  The loop over \<^verbatim>\<open>range(len(times))\<close>. \<^verbatim>\<open>data[:, i]\<close> raises \<^verbatim>\<open>IndexError\<close> when the array
  has no column \<open>i\<close>; the rows written before stay in the file.
\<close>

fun csv_rows ::
  "real list list \<Rightarrow> real list \<Rightarrow> bool \<Rightarrow> nat list \<Rightarrow> cell list list \<times> error option" where
  "csv_rows d ts include_time [] = ([], None)"
| "csv_rows d ts include_time (i # is) =
     (if \<forall>row \<in> set d. i < length row
      then (let row = (if include_time then [Num (ts ! i)] else []) @
                      map (\<lambda>r. Num (r ! i)) d;
                rest = csv_rows d ts include_time is
            in (row # fst rest, snd rest))
      else ([], Some IndexError))"

definition to_csv ::
  "picker \<Rightarrow> string \<Rightarrow> string list option \<Rightarrow> bool \<Rightarrow> world \<Rightarrow> (error + unit) \<times> world" where
  "to_csv pick output_path channels include_time w =
     (case get_data pick (self w) channels of
        Inl e \<Rightarrow> (Inl e, w)
      | Inr (d, ts) \<Rightarrow>
          if \<not> writable w output_path then (Inl OSError, w)
          else
            (let header = (if include_time then [Str ''Time''] else []) @
                          map Str (export_names (self w) channels);
                 body = csv_rows d ts include_time [0..<length ts];
                 w' = w\<lparr>files := (files w)(output_path \<mapsto> CSV (header # fst body))\<rparr>
             in (case snd body of
                   Some e \<Rightarrow> (Inl e, w')
                 | None \<Rightarrow>
                     (Inr (), w'\<lparr>stdout := stdout w' @
                                   [''CSV file saved to: '' @ output_path]\<rparr>))))"

subsection \<open>JSON (lines 116-152)\<close>

text \<open>Assignment to a dictionary key: replace in place, or append a new key.\<close>

fun dict_set :: "('k \<times> 'v) list \<Rightarrow> 'k \<Rightarrow> 'v \<Rightarrow> ('k \<times> 'v) list" where
  "dict_set [] k v = [(k, v)]"
| "dict_set (p # ps) k v = (if fst p = k then (k, v) # ps else p # dict_set ps k v)"

text \<open>
  The loop over \<^verbatim>\<open>enumerate(ch_names)\<close>; \<^verbatim>\<open>data[i, :]\<close> raises \<^verbatim>\<open>IndexError\<close> when the
  array has no row \<open>i\<close>.
\<close>

fun json_channels ::
  "real list list \<Rightarrow> nat \<Rightarrow> string list \<Rightarrow> (string \<times> real list) list \<Rightarrow>
   error + (string \<times> real list) list" where
  "json_channels d i [] acc = Inr acc"
| "json_channels d i (ch_name # rest) acc =
     (if i < length d then json_channels d (Suc i) rest (dict_set acc ch_name (d ! i))
      else Inl IndexError)"

definition to_json ::
  "picker \<Rightarrow> string \<Rightarrow> string list option \<Rightarrow> bool \<Rightarrow> world \<Rightarrow> (error + unit) \<times> world" where
  "to_json pick output_path channels include_metadata w =
     (case get_data pick (self w) channels of
        Inl e \<Rightarrow> (Inl e, w)
      | Inr (d, ts) \<Rightarrow>
          (case (if include_metadata then map_sum id Some (get_info (self w)) else Inr None) of
             Inl e \<Rightarrow> (Inl e, w)
           | Inr meta \<Rightarrow>
               (case json_channels d 0 (export_names (self w) channels) [] of
                  Inl e \<Rightarrow> (Inl e, w)
                | Inr chans \<Rightarrow>
                    if \<not> writable w output_path then (Inl OSError, w)
                    else (Inr (),
                          w\<lparr>files := (files w)(output_path \<mapsto>
                                JSON \<lparr>metadata = meta, data_times = ts,
                                      data_channels = chans\<rparr>),
                            stdout := stdout w @
                                [''JSON file saved to: '' @ output_path]\<rparr>))))"

subsection \<open>NumPy archive (lines 154-179)\<close>

text \<open>\<^verbatim>\<open>np.savez_compressed\<close> appends \<^verbatim>\<open>.npz\<close> to a file name that does not end with it.\<close>

definition npz_path :: "string \<Rightarrow> string" where
  "npz_path p = (if take 4 (rev p) = rev ''.npz'' then p else p @ ''.npz'')"

definition to_numpy ::
  "picker \<Rightarrow> string \<Rightarrow> string list option \<Rightarrow> world \<Rightarrow> (error + unit) \<times> world" where
  "to_numpy pick output_path channels w =
     (case get_data pick (self w) channels of
        Inl e \<Rightarrow> (Inl e, w)
      | Inr (d, ts) \<Rightarrow>
          if \<not> writable w (npz_path output_path) then (Inl OSError, w)
          else (Inr (),
                w\<lparr>files := (files w)(npz_path output_path \<mapsto>
                      NPZ [(''data'', Matrix d),
                           (''times'', Vector ts),
                           (''channel_names'', Names (export_names (self w) channels)),
                           (''sampling_rate'', Scalar (sfreq (raw (self w))))]),
                  stdout := stdout w @ [''NumPy file saved to: '' @ output_path]\<rparr>))"

subsection \<open>The samples of a named channel\<close>

text \<open>
  The stored row of the channel with a given label (the first one, should a label occur
  twice): what a column of an export labelled with that name is expected to hold.
\<close>

definition channel_samples :: "Raw \<Rightarrow> string \<Rightarrow> real list" where
  "channel_samples r name = raw_data r ! index_of (ch_names r) name"

subsection \<open>A picker that keeps the recording's order\<close>

text \<open>
  Another behaviour a picker can have: the indices of the recording's channels whose label
  was asked for, in the recording's own order, whatever the order of the request (what
  \<^verbatim>\<open>mne.pick_channels\<close> returns when called with \<^verbatim>\<open>ordered=False\<close>).
\<close>

definition pick_in_recording_order :: picker where
  "pick_in_recording_order names ls =
     Inr (filter (\<lambda>i. names ! i \<in> set ls) [0..<length names])"

subsection \<open>Example files and what the loader returns for them\<close>





definition two_rates_raw :: Raw where
  "two_rates_raw =
     \<lparr>ch_names = [''A'', ''B''], sfreq = 4, meas_date = None,
      raw_times = [0, 1 / 4, 1 / 2, 3 / 4],
      raw_data = [[1, 2, 3, 4], [10, 15, 20, 15]]\<rparr>"

definition two_rates :: EDFConverter where
  "two_rates = \<lparr>filepath = ''rec/two_rates.edf'', raw = two_rates_raw\<rparr>"






text \<open>A world in which every path but \<^verbatim>\<open>/ro/out.csv\<close> can be written.\<close>

definition two_rates_world :: world where
  "two_rates_world =
     \<lparr>self = two_rates, files = (\<lambda>p. None),
      writable = (\<lambda>p. p \<noteq> ''/ro/out.csv''), stdout = []\<rparr>"


section \<open>Properties\<close>

subsection \<open>What the loops write\<close>

lemma csv_rows_all:
  assumes "\<forall>row \<in> set d. n \<le> length row" and "\<forall>i \<in> set is. i < n"
  shows "csv_rows d ts t is =
           (map (\<lambda>i. (if t then [Num (ts ! i)] else []) @ map (\<lambda>r. Num (r ! i)) d) is, None)"
  using assms(2)
proof (induction "is")
  case Nil
  show ?case by simp
next
  case (Cons i "is")
  then have "\<forall>row \<in> set d. i < length row" using assms(1) by fastforce
  with Cons show ?case by (simp add: Let_def)
qed


lemma to_csv_success:
  assumes "get_data pick (self w) ch = Inr (d, ts)"
    and "\<forall>row \<in> set d. length ts \<le> length row"
    and "writable w p"
  shows "to_csv pick p ch t w =
           (Inr (),
            w\<lparr>files := (files w)(p \<mapsto>
                  CSV (((if t then [Str ''Time''] else []) @ map Str (export_names (self w) ch)) #
                       map (\<lambda>i. (if t then [Num (ts ! i)] else []) @ map (\<lambda>r. Num (r ! i)) d)
                           [0..<length ts])),
              stdout := stdout w @ [''CSV file saved to: '' @ p]\<rparr>)"
proof -
  have b: "csv_rows d ts t [0..<length ts] =
       (map (\<lambda>i. (if t then [Num (ts ! i)] else []) @ map (\<lambda>r. Num (r ! i)) d)
            [0..<length ts], None)"
    by (rule csv_rows_all [OF assms(2)]) simp
  show ?thesis
    using assms(1,3) b by (simp add: to_csv_def Let_def)
qed


lemma dict_set_fresh: "k \<notin> fst ` set acc \<Longrightarrow> dict_set acc k v = acc @ [(k, v)]"
  by (induction acc) auto

lemma json_channels_zip:
  assumes "distinct rest" and "set rest \<inter> fst ` set acc = {}" and "i + length rest \<le> length d"
  shows "json_channels d i rest acc = Inr (acc @ zip rest (drop i d))"
  using assms
proof (induction rest arbitrary: i acc)
  case Nil
  show ?case by simp
next
  case (Cons a rest)
  have i: "i < length d" using Cons.prems(3) by simp
  have fresh: "a \<notin> fst ` set acc" using Cons.prems(2) by auto
  have disj: "set rest \<inter> fst ` set (acc @ [(a, d ! i)]) = {}"
    using Cons.prems(1,2) by auto
  have "json_channels d (Suc i) rest (acc @ [(a, d ! i)]) =
          Inr ((acc @ [(a, d ! i)]) @ zip rest (drop (Suc i) d))"
    using Cons.IH [OF _ disj] Cons.prems(1,3) by simp
  moreover have "drop i d = d ! i # drop (Suc i) d"
    using i by (simp add: Cons_nth_drop_Suc)
  ultimately show ?case
    using i dict_set_fresh [OF fresh, of "d ! i"] by simp
qed

subsection \<open>The empty channel filter\<close>

text \<open>
  C10. Passing an empty list of channels to \<open>get_data\<close> or to an exporter is the same
  as passing no list: \<open>get_data\<close> returns the whole stored array, and each exporter does
  what it does without a filter, which is to write all channels of the recording: the CSV
  file has a column for every channel name, the JSON object an entry for every channel
  name, the archive all names and all rows.
\<close>

theorem empty_filter_is_no_filter:
  "get_data pick slf (Some []) = get_data pick slf None
   \<and> get_data pick slf None = Inr (raw_data (raw slf), raw_times (raw slf))
   \<and> to_csv pick p (Some []) t w = to_csv pick p None t w
   \<and> to_json pick p (Some []) m w = to_json pick p None m w
   \<and> to_numpy pick p (Some []) w = to_numpy pick p None w
   \<and> (writable w p \<longrightarrow>
        (\<forall>row \<in> set (raw_data (raw (self w))). length (raw_times (raw (self w))) \<le> length row) \<longrightarrow>
        to_csv pick p (Some []) t w =
          (Inr (),
           w\<lparr>files := (files w)(p \<mapsto>
                 CSV (((if t then [Str ''Time''] else []) @ map Str (ch_names (raw (self w)))) #
                      map (\<lambda>i. (if t then [Num (raw_times (raw (self w)) ! i)] else []) @
                               map (\<lambda>r. Num (r ! i)) (raw_data (raw (self w))))
                          [0..<length (raw_times (raw (self w)))])),
             stdout := stdout w @ [''CSV file saved to: '' @ p]\<rparr>))
   \<and> (writable w p \<longrightarrow> distinct (ch_names (raw (self w))) \<longrightarrow>
        length (ch_names (raw (self w))) \<le> length (raw_data (raw (self w))) \<longrightarrow>
        (m \<longrightarrow> raw_times (raw (self w)) \<noteq> []) \<longrightarrow>
        to_json pick p (Some []) m w =
          (Inr (),
           w\<lparr>files := (files w)(p \<mapsto>
                 JSON \<lparr>metadata = (if m then Some (projr (get_info (self w))) else None),
                       data_times = raw_times (raw (self w)),
                       data_channels = zip (ch_names (raw (self w))) (raw_data (raw (self w)))\<rparr>),
             stdout := stdout w @ [''JSON file saved to: '' @ p]\<rparr>))
   \<and> (writable w (npz_path p) \<longrightarrow>
        to_numpy pick p (Some []) w =
          (Inr (),
           w\<lparr>files := (files w)(npz_path p \<mapsto>
                 NPZ [(''data'', Matrix (raw_data (raw (self w)))),
                      (''times'', Vector (raw_times (raw (self w)))),
                      (''channel_names'', Names (ch_names (raw (self w)))),
                      (''sampling_rate'', Scalar (sfreq (raw (self w))))]),
             stdout := stdout w @ [''NumPy file saved to: '' @ p]\<rparr>))"
proof -
  let ?r = "raw (self w)"
  have eqs: "get_data pick slf (Some []) = get_data pick slf None
       \<and> get_data pick slf None = Inr (raw_data (raw slf), raw_times (raw slf))
       \<and> to_csv pick p (Some []) t w = to_csv pick p None t w
       \<and> to_json pick p (Some []) m w = to_json pick p None m w
       \<and> to_numpy pick p (Some []) w = to_numpy pick p None w"
    unfolding to_csv_def to_json_def to_numpy_def get_data.simps export_names.simps
    by simp
  have gd: "get_data pick (self w) (Some []) = Inr (raw_data ?r, raw_times ?r)" by simp
  have csv: "writable w p \<longrightarrow>
        (\<forall>row \<in> set (raw_data ?r). length (raw_times ?r) \<le> length row) \<longrightarrow>
        to_csv pick p (Some []) t w =
          (Inr (),
           w\<lparr>files := (files w)(p \<mapsto>
                 CSV (((if t then [Str ''Time''] else []) @ map Str (ch_names ?r)) #
                      map (\<lambda>i. (if t then [Num (raw_times ?r ! i)] else []) @
                               map (\<lambda>r. Num (r ! i)) (raw_data ?r))
                          [0..<length (raw_times ?r)])),
             stdout := stdout w @ [''CSV file saved to: '' @ p]\<rparr>)"
    using to_csv_success [OF gd, of p t] by simp
  have json: "writable w p \<longrightarrow> distinct (ch_names ?r) \<longrightarrow>
        length (ch_names ?r) \<le> length (raw_data ?r) \<longrightarrow>
        (m \<longrightarrow> raw_times ?r \<noteq> []) \<longrightarrow>
        to_json pick p (Some []) m w =
          (Inr (),
           w\<lparr>files := (files w)(p \<mapsto>
                 JSON \<lparr>metadata = (if m then Some (projr (get_info (self w))) else None),
                       data_times = raw_times ?r,
                       data_channels = zip (ch_names ?r) (raw_data ?r)\<rparr>),
             stdout := stdout w @ [''JSON file saved to: '' @ p]\<rparr>)"
  proof (intro impI)
    assume wr: "writable w p" and di: "distinct (ch_names ?r)"
      and le: "length (ch_names ?r) \<le> length (raw_data ?r)"
      and ne: "m \<longrightarrow> raw_times ?r \<noteq> []"
    have mt: "(if m then map_sum id Some (get_info (self w)) else Inr None) =
                Inr (if m then Some (projr (get_info (self w))) else None)"
      using ne by (simp add: get_info_def)
    have jc: "json_channels (raw_data ?r) 0 (ch_names ?r) [] =
                Inr ([] @ zip (ch_names ?r) (drop 0 (raw_data ?r)))"
      by (rule json_channels_zip [OF di]) (use le in simp_all)
    show "to_json pick p (Some []) m w =
          (Inr (),
           w\<lparr>files := (files w)(p \<mapsto>
                 JSON \<lparr>metadata = (if m then Some (projr (get_info (self w))) else None),
                       data_times = raw_times ?r,
                       data_channels = zip (ch_names ?r) (raw_data ?r)\<rparr>),
             stdout := stdout w @ [''JSON file saved to: '' @ p]\<rparr>)"
      unfolding to_json_def using jc wr mt by (simp del: json_channels.simps)
  qed
  have npz: "writable w (npz_path p) \<longrightarrow>
        to_numpy pick p (Some []) w =
          (Inr (),
           w\<lparr>files := (files w)(npz_path p \<mapsto>
                 NPZ [(''data'', Matrix (raw_data ?r)),
                      (''times'', Vector (raw_times ?r)),
                      (''channel_names'', Names (ch_names ?r)),
                      (''sampling_rate'', Scalar (sfreq ?r))]),
             stdout := stdout w @ [''NumPy file saved to: '' @ p]\<rparr>)"
    by (simp add: to_numpy_def)
  from eqs csv json npz show ?thesis by (simp only: simp_thms)
qed


theorem empty_filter_is_no_filter_witness:
  "to_csv pick_channels ''out.csv'' (Some []) True two_rates_world =
     (Inr (),
      two_rates_world\<lparr>files := (files two_rates_world)(''out.csv'' \<mapsto>
          CSV [[Str ''Time'', Str ''A'', Str ''B''],
               [Num 0, Num 1, Num 10],
               [Num (1 / 4), Num 2, Num 15],
               [Num (1 / 2), Num 3, Num 20],
               [Num (3 / 4), Num 4, Num 15]]),
        stdout := [''CSV file saved to: out.csv'']\<rparr>)
   \<and> to_json pick_channels ''out.json'' (Some []) False two_rates_world =
     (Inr (),
      two_rates_world\<lparr>files := (files two_rates_world)(''out.json'' \<mapsto>
          JSON \<lparr>metadata = None, data_times = [0, 1 / 4, 1 / 2, 3 / 4],
                data_channels = [(''A'', [1, 2, 3, 4]), (''B'', [10, 15, 20, 15])]\<rparr>),
        stdout := [''JSON file saved to: out.json'']\<rparr>)
   \<and> to_numpy pick_channels ''out'' (Some []) two_rates_world =
     (Inr (),
      two_rates_world\<lparr>files := (files two_rates_world)(''out.npz'' \<mapsto>
          NPZ [(''data'', Matrix [[1, 2, 3, 4], [10, 15, 20, 15]]),
               (''times'', Vector [0, 1 / 4, 1 / 2, 3 / 4]),
               (''channel_names'', Names [''A'', ''B'']),
               (''sampling_rate'', Scalar 4)]),
        stdout := [''NumPy file saved to: out'']\<rparr>)"
proof -
  have s: "self two_rates_world = two_rates" "raw two_rates = two_rates_raw"
    "stdout two_rates_world = []"
    by (simp_all add: two_rates_world_def two_rates_def)
  have r: "ch_names two_rates_raw = [''A'', ''B'']" "sfreq two_rates_raw = 4"
    "raw_times two_rates_raw = [0, 1 / 4, 1 / 2, 3 / 4]"
    "raw_data two_rates_raw = [[1, 2, 3, 4], [10, 15, 20, 15]]"
    by (simp_all add: two_rates_raw_def)
  have w: "writable two_rates_world ''out.csv''" "writable two_rates_world ''out.json''"
    "writable two_rates_world (npz_path ''out'')" "npz_path ''out'' = ''out.npz''"
    by (simp_all add: two_rates_world_def npz_path_def)
  note empty_filter_is_no_filter [of pick_channels two_rates "''out.csv''" True two_rates_world False,
      THEN conjunct2, THEN conjunct2, THEN conjunct2, THEN conjunct2, THEN conjunct2,
      THEN conjunct1]
  then have a: "to_csv pick_channels ''out.csv'' (Some []) True two_rates_world =
     (Inr (),
      two_rates_world\<lparr>files := (files two_rates_world)(''out.csv'' \<mapsto>
          CSV [[Str ''Time'', Str ''A'', Str ''B''],
               [Num 0, Num 1, Num 10],
               [Num (1 / 4), Num 2, Num 15],
               [Num (1 / 2), Num 3, Num 20],
               [Num (3 / 4), Num 4, Num 15]]),
        stdout := [''CSV file saved to: out.csv'']\<rparr>)"
    using w by (simp add: s r upt_rec)
  note empty_filter_is_no_filter [of pick_channels two_rates "''out.json''" True two_rates_world False,
      THEN conjunct2, THEN conjunct2, THEN conjunct2, THEN conjunct2, THEN conjunct2,
      THEN conjunct2, THEN conjunct1]
  then have b: "to_json pick_channels ''out.json'' (Some []) False two_rates_world =
     (Inr (),
      two_rates_world\<lparr>files := (files two_rates_world)(''out.json'' \<mapsto>
          JSON \<lparr>metadata = None, data_times = [0, 1 / 4, 1 / 2, 3 / 4],
                data_channels = [(''A'', [1, 2, 3, 4]), (''B'', [10, 15, 20, 15])]\<rparr>),
        stdout := [''JSON file saved to: out.json'']\<rparr>)"
    using w by (simp add: s r)
  note empty_filter_is_no_filter [of pick_channels two_rates "''out''" True two_rates_world False,
      THEN conjunct2, THEN conjunct2, THEN conjunct2, THEN conjunct2, THEN conjunct2,
      THEN conjunct2, THEN conjunct2]
  then have c: "to_numpy pick_channels ''out'' (Some []) two_rates_world =
     (Inr (),
      two_rates_world\<lparr>files := (files two_rates_world)(''out.npz'' \<mapsto>
          NPZ [(''data'', Matrix [[1, 2, 3, 4], [10, 15, 20, 15]]),
               (''times'', Vector [0, 1 / 4, 1 / 2, 3 / 4]),
               (''channel_names'', Names [''A'', ''B'']),
               (''sampling_rate'', Scalar 4)]),
        stdout := [''NumPy file saved to: out'']\<rparr>)"
    using w by (simp add: s r)
  from a b c show ?thesis by (simp only: simp_thms)
qed

subsection \<open>Loading\<close>




subsection \<open>Summary of a recording\<close>

text \<open>
  C9. For a recording with a uniform time axis, at least one sample and a positive
  sampling rate \<open>f\<close>, \<open>get_info\<close> reports as \<open>duration_seconds\<close> the time stamp of the last
  sample, \<open>(n_samples - 1) / f\<close>, which is not \<open>n_samples / f\<close>; the reported \<open>n_samples\<close>
  is the length of the time axis.
\<close>

theorem get_info_duration:
  assumes "uniform_time_axis (raw slf)"
    and "raw_times (raw slf) \<noteq> []"
    and "0 < sfreq (raw slf)"
  shows "\<exists>i. get_info slf = Inr i
           \<and> n_samples i = length (raw_times (raw slf))
           \<and> sampling_rate i = sfreq (raw slf)
           \<and> duration_seconds i = real (n_samples i - 1) / sampling_rate i
           \<and> duration_seconds i \<noteq> real (n_samples i) / sampling_rate i"
proof -
  let ?n = "length (raw_times (raw slf))"
  let ?f = "sfreq (raw slf)"
  have n: "0 < ?n" using assms(2) by simp
  have "last (raw_times (raw slf)) = last (map (\<lambda>k. real k / ?f) [0..<?n])"
    using assms(1) unfolding uniform_time_axis_def by simp
  also have "\<dots> = real (?n - 1) / ?f"
    using n by (simp add: last_map)
  finally have l: "last (raw_times (raw slf)) = real (?n - 1) / ?f" .
  have "real (?n - 1) / ?f \<noteq> real ?n / ?f"
    using assms(2,3) by (cases "raw_times (raw slf)") (auto simp: divide_simps)
  with l show ?thesis using assms(2) by (simp add: get_info_def)
qed

theorem get_info_duration_witness:
  "get_info two_rates =
     Inr \<lparr>filename = ''two_rates.edf'', n_channels = 2, channel_names = [''A'', ''B''],
          sampling_rate = 4, duration_seconds = 3 / 4, n_samples = 4,
          measurement_date = None\<rparr>"
proof -
  have u: "uniform_time_axis (raw two_rates)"
    by (simp add: uniform_time_axis_def two_rates_def two_rates_raw_def upt_rec)
  have ne: "raw_times (raw two_rates) \<noteq> []" and f: "0 < sfreq (raw two_rates)"
    by (simp_all add: two_rates_def two_rates_raw_def)
  from get_info_duration [OF u ne f] show ?thesis
    by (simp add: get_info_def two_rates_def two_rates_raw_def path_name_def)
qed

subsection \<open>Exporters leave the object alone\<close>

lemma exporters_keep_self:
  "self (snd (to_csv pick p ch t w)) = self w"
  "self (snd (to_json pick p ch m w)) = self w"
  "self (snd (to_numpy pick p ch w)) = self w"
  "writable (snd (to_csv pick p ch t w)) = writable w"
  "writable (snd (to_json pick p ch m w)) = writable w"
  "writable (snd (to_numpy pick p ch w)) = writable w"
  by (auto simp: to_csv_def to_json_def to_numpy_def Let_def
      split: sum.splits option.splits prod.splits)

lemma exporters_read_self:
  assumes "self w' = self w" and "writable w' = writable w"
  shows "fst (to_csv pick p ch t w') = fst (to_csv pick p ch t w)"
    and "fst (to_json pick p ch m w') = fst (to_json pick p ch m w)"
    and "fst (to_numpy pick p ch w') = fst (to_numpy pick p ch w)"
  using assms
  by (auto simp: to_csv_def to_json_def to_numpy_def Let_def
      split: sum.splits option.splits prod.splits)

text \<open>
  C8. Whatever an exporter call does, succeed or fail, the object is the same afterwards:
  the loaded recording is unchanged, \<open>get_data\<close> returns what it returned before, and any
  further export has the outcome it would have had without the earlier call. Nothing is
  decoded again.
\<close>

theorem export_failure_is_local:
  assumes "w' = snd (to_csv pick p ch t w) \<or> w' = snd (to_json pick p ch m w)
           \<or> w' = snd (to_numpy pick p ch w)"
  shows "self w' = self w
       \<and> get_data pick (self w') ch' = get_data pick (self w) ch'
       \<and> fst (to_csv pick q ch' t' w') = fst (to_csv pick q ch' t' w)
       \<and> fst (to_json pick q ch' m' w') = fst (to_json pick q ch' m' w)
       \<and> fst (to_numpy pick q ch' w') = fst (to_numpy pick q ch' w)"
proof -
  from assms have s: "self w' = self w" and wr: "writable w' = writable w"
    by (auto simp: exporters_keep_self)
  show ?thesis
    using s exporters_read_self [OF s wr] by simp
qed

theorem export_failure_is_local_witness:
  "fst (to_csv pick_channels ''/ro/out.csv'' None True two_rates_world) = Inl OSError
   \<and> self (snd (to_csv pick_channels ''/ro/out.csv'' None True two_rates_world)) = two_rates
   \<and> fst (to_json pick_channels ''out.json'' None True
            (snd (to_csv pick_channels ''/ro/out.csv'' None True two_rates_world))) = Inr ()"
  using export_failure_is_local
          [of "snd (to_csv pick_channels ''/ro/out.csv'' None True two_rates_world)"
              pick_channels "''/ro/out.csv''" None True two_rates_world _ None
              "''out.json''" _ True]
  by (simp add: to_csv_def to_json_def two_rates_world_def get_info_def two_rates_def
      two_rates_raw_def)

subsection \<open>Unknown channel labels\<close>

text \<open>What \<open>repr_list\<close> prints: plain labels, and labels with quotes and escapes.\<close>

lemma repr_list_examples:
  "repr_list [''A'', ''B''] = ''['A', 'B']''"
  "repr_list [''it's'', [CHR ''a'', CHR 0x5C, CHR ''b'']] =
     [CHR ''['', CHR 0x22] @ ''it's'' @ [CHR 0x22] @ '', '' @
     [CHR 0x27, CHR ''a'', CHR 0x5C, CHR 0x5C, CHR ''b'', CHR 0x27] @ '']''"
  "py_repr [CHR 0x27, CHR 0x22] = [CHR 0x27, CHR 0x5C, CHR 0x27, CHR 0x22, CHR 0x27]"
  "py_repr [CHR 0x09, CHR 0x1F] = [CHR 0x27] @ [CHR 0x5C, CHR ''t''] @
     [CHR 0x5C, CHR ''x'', CHR ''1'', CHR ''f''] @ [CHR 0x27]"
  by (simp_all add: repr_list_def py_repr_def py_quote_def py_escape_def hex_digit_def)

lemma pick_channels_unknown:
  "\<exists>x \<in> set ls. x \<notin> set names \<Longrightarrow>
     pick_channels names ls =
       Inl (UnknownChannelError (hd (filter (\<lambda>x. x \<notin> set names) ls)) names)"
  by (induction ls) auto

text \<open>
  C3, as stated, fails: \<open>get_channel_data\<close> with a label that the recording does not have
  raises \<open>ValueError\<close>, not \<open>UnknownChannelError\<close>. On the recording with channels \<open>A\<close> and
  \<open>B\<close>, asking for \<open>ZZ\<close>:
\<close>

theorem get_channel_data_absent_counterexample:
  "get_channel_data pick_channels two_rates ''ZZ'' =
     Inl (ValueError ''Channel 'ZZ' not found. Available channels: ['A', 'B']'')
   \<and> get_channel_data pick_channels two_rates ''ZZ'' \<noteq>
     Inl (UnknownChannelError ''ZZ'' [''A'', ''B''])"
  by (simp add: get_channel_data_def two_rates_def two_rates_raw_def not_found_message_def
      quoted_def repr_list_def py_repr_def py_quote_def py_escape_def)

text \<open>
  C3, amended. \<open>get_channel_data\<close> with a label that the recording does not have fails
  with \<open>ValueError\<close>; the message names the label and lists the labels of the recording
  (ASCII labels, as \<^verbatim>\<open>repr\<close> prints them). An export call (CSV, JSON or archive) whose list
  of channels contains a label that the recording does not have fails with
  \<open>UnknownChannelError\<close> naming the first such label and listing the valid labels, even
  if other requested labels are valid, and writes nothing; here channel picking is
  \<open>pick_channels\<close>, as the specification describes it.
\<close>

theorem unknown_label_errors:
  "((\<forall>n \<in> set (ch_names (raw slf)). ascii n) \<longrightarrow>
      channel_name \<notin> set (ch_names (raw slf)) \<longrightarrow>
      get_channel_data pick slf channel_name =
        Inl (ValueError (''Channel '' @ quoted channel_name @
               '' not found. Available channels: '' @ repr_list (ch_names (raw slf)))))
   \<and> ((\<exists>x \<in> set (l # ls). x \<notin> set (ch_names (raw (self w)))) \<longrightarrow>
        to_csv pick_channels p (Some (l # ls)) t w =
          (Inl (UnknownChannelError
                  (hd (filter (\<lambda>x. x \<notin> set (ch_names (raw (self w)))) (l # ls)))
                  (ch_names (raw (self w)))), w)
      \<and> to_json pick_channels p (Some (l # ls)) m w =
          (Inl (UnknownChannelError
                  (hd (filter (\<lambda>x. x \<notin> set (ch_names (raw (self w)))) (l # ls)))
                  (ch_names (raw (self w)))), w)
      \<and> to_numpy pick_channels p (Some (l # ls)) w =
          (Inl (UnknownChannelError
                  (hd (filter (\<lambda>x. x \<notin> set (ch_names (raw (self w)))) (l # ls)))
                  (ch_names (raw (self w)))), w))"
proof -
  have a: "channel_name \<notin> set (ch_names (raw slf)) \<longrightarrow>
      get_channel_data pick slf channel_name =
        Inl (ValueError (''Channel '' @ quoted channel_name @
               '' not found. Available channels: '' @ repr_list (ch_names (raw slf))))"
    by (simp add: get_channel_data_def not_found_message_def)
  have b: "(\<exists>x \<in> set (l # ls). x \<notin> set (ch_names (raw (self w)))) \<longrightarrow>
      get_data pick_channels (self w) (Some (l # ls)) =
        Inl (UnknownChannelError
               (hd (filter (\<lambda>x. x \<notin> set (ch_names (raw (self w)))) (l # ls)))
               (ch_names (raw (self w))))"
    using pick_channels_unknown [of "l # ls" "ch_names (raw (self w))"]
    by (simp del: pick_channels.simps)
  show ?thesis
    using a b by (simp add: to_csv_def to_json_def to_numpy_def del: get_data.simps)
qed

theorem unknown_label_errors_witness:
  "get_channel_data pick_channels two_rates ''ZZ'' =
       Inl (ValueError ''Channel 'ZZ' not found. Available channels: ['A', 'B']'')
   \<and> to_csv pick_channels ''out.csv'' (Some [''A'', ''ZZ'', ''B'', ''Q'']) True two_rates_world =
       (Inl (UnknownChannelError ''ZZ'' [''A'', ''B'']), two_rates_world)
   \<and> to_json pick_channels ''out.json'' (Some [''A'', ''ZZ'', ''B'', ''Q'']) True two_rates_world =
       (Inl (UnknownChannelError ''ZZ'' [''A'', ''B'']), two_rates_world)
   \<and> to_numpy pick_channels ''out'' (Some [''A'', ''ZZ'', ''B'', ''Q'']) two_rates_world =
       (Inl (UnknownChannelError ''ZZ'' [''A'', ''B'']), two_rates_world)"
proof -
  have n: "ch_names (raw two_rates) = [''A'', ''B'']"
    "ch_names (raw (self two_rates_world)) = [''A'', ''B'']"
    by (simp_all add: two_rates_world_def two_rates_def two_rates_raw_def)
  have r: "repr_list [''A'', ''B''] = ''['A', 'B']''"
    by (simp add: repr_list_def py_repr_def py_quote_def py_escape_def)
  note t = unknown_label_errors [of two_rates "''ZZ''" pick_channels "''A''" "[''ZZ'', ''B'', ''Q'']"
      two_rates_world _ True True]
  have a: "get_channel_data pick_channels two_rates ''ZZ'' =
       Inl (ValueError ''Channel 'ZZ' not found. Available channels: ['A', 'B']'')"
    using t [THEN conjunct1] by (simp add: n r ascii_def quoted_def)
  have b: "to_csv pick_channels ''out.csv'' (Some [''A'', ''ZZ'', ''B'', ''Q'']) True two_rates_world =
       (Inl (UnknownChannelError ''ZZ'' [''A'', ''B'']), two_rates_world)"
    using t [of "''out.csv''", THEN conjunct2] by (simp add: n)
  have c: "to_json pick_channels ''out.json'' (Some [''A'', ''ZZ'', ''B'', ''Q'']) True two_rates_world =
       (Inl (UnknownChannelError ''ZZ'' [''A'', ''B'']), two_rates_world)"
    using t [of "''out.json''", THEN conjunct2] by (simp add: n)
  have d: "to_numpy pick_channels ''out'' (Some [''A'', ''ZZ'', ''B'', ''Q'']) two_rates_world =
       (Inl (UnknownChannelError ''ZZ'' [''A'', ''B'']), two_rates_world)"
    using t [of "''out''", THEN conjunct2] by (simp add: n)
  from a b c d show ?thesis by (simp only: simp_thms)
qed

subsection \<open>The data get_data returns\<close>

lemma raw_get_data_rows:
  "raw_get_data r picks = Inr d \<Longrightarrow> set d \<subseteq> set (raw_data r)"
  by (auto simp: raw_get_data_def not_le split: if_splits)

lemma get_data_rows:
  assumes "get_data pick slf ch = Inr (d, ts)"
  shows "ts = raw_times (raw slf) \<and> set d \<subseteq> set (raw_data (raw slf))"
proof (cases ch)
  case None
  with assms show ?thesis by auto
next
  case (Some ls)
  show ?thesis
  proof (cases ls)
    case Nil
    with Some assms show ?thesis by auto
  next
    case (Cons l ls')
    with Some assms show ?thesis
      by (auto split: sum.splits dest: raw_get_data_rows)
  qed
qed





subsection \<open>CSV export\<close>




subsection \<open>Archive export\<close>

text \<open>
  C7, as stated, fails. The archive written for the recording with channels \<open>A\<close> and \<open>B\<close>
  has the four entries \<open>data\<close>, \<open>times\<close>, \<open>channel_names\<close> and \<open>sampling_rate\<close>; the channels
  are the rows of the one array \<open>data\<close>, and there is no array named \<open>A\<close>.
\<close>

theorem to_numpy_two_rates_counterexample:
  "files (snd (to_numpy pick_channels ''out'' None two_rates_world)) ''out.npz'' =
     Some (NPZ [(''data'', Matrix [[1, 2, 3, 4], [10, 15, 20, 15]]),
                (''times'', Vector [0, 1 / 4, 1 / 2, 3 / 4]),
                (''channel_names'', Names [''A'', ''B'']),
                (''sampling_rate'', Scalar 4)])
   \<and> map_of [(''data'', Matrix [[1, 2, 3, 4], [10, 15, 20, 15]]),
              (''times'', Vector [0, 1 / 4, 1 / 2, 3 / 4]),
              (''channel_names'', Names [''A'', ''B'']),
              (''sampling_rate'', Scalar 4)] ''A'' = None"
  by (simp add: to_numpy_def npz_path_def two_rates_world_def two_rates_def two_rates_raw_def)

text \<open>
  C7, amended. A successful archive export writes exactly four entries: \<open>data\<close>, the
  exported channels stacked as the rows of one array; \<open>times\<close>, the time axis;
  \<open>channel_names\<close>, the exported labels; and the scalar \<open>sampling_rate\<close>.
\<close>

theorem to_numpy_entries:
  assumes "fst (to_numpy pick p ch w) = Inr ()"
  shows "\<exists>d ts. get_data pick (self w) ch = Inr (d, ts)
           \<and> files (snd (to_numpy pick p ch w)) (npz_path p) =
               Some (NPZ [(''data'', Matrix d),
                          (''times'', Vector ts),
                          (''channel_names'', Names (export_names (self w) ch)),
                          (''sampling_rate'', Scalar (sfreq (raw (self w))))])"
  using assms by (auto simp: to_numpy_def split: sum.splits if_splits)

theorem to_numpy_entries_witness:
  "fst (to_numpy pick_channels ''out'' (Some [''B'']) two_rates_world) = Inr ()
   \<and> files (snd (to_numpy pick_channels ''out'' (Some [''B'']) two_rates_world)) ''out.npz'' =
     Some (NPZ [(''data'', Matrix [[10, 15, 20, 15]]),
                (''times'', Vector [0, 1 / 4, 1 / 2, 3 / 4]),
                (''channel_names'', Names [''B'']),
                (''sampling_rate'', Scalar 4)])"
proof -
  have ok: "fst (to_numpy pick_channels ''out'' (Some [''B'']) two_rates_world) = Inr ()"
    by (simp add: to_numpy_def npz_path_def raw_get_data_def two_rates_world_def two_rates_def
        two_rates_raw_def)
  from to_numpy_entries [OF ok] ok show ?thesis
    by (simp add: npz_path_def raw_get_data_def two_rates_world_def two_rates_def
        two_rates_raw_def)
qed

subsection \<open>Exporting a chosen list of channels\<close>

lemma index_of_less: "x \<in> set xs \<Longrightarrow> index_of xs x < length xs"
  by (induction xs) auto

lemma pick_channels_valid:
  "set ls \<subseteq> set names \<Longrightarrow> pick_channels names ls = Inr (map (index_of names) ls)"
  by (induction ls) auto

lemma get_data_picked:
  assumes "length (raw_data (raw slf)) = length (ch_names (raw slf))"
    and "set (l # ls) \<subseteq> set (ch_names (raw slf))"
  shows "get_data pick_channels slf (Some (l # ls)) =
           Inr (map (channel_samples (raw slf)) (l # ls), raw_times (raw slf))"
proof -
  have p: "pick_channels (ch_names (raw slf)) (l # ls) =
             Inr (map (index_of (ch_names (raw slf))) (l # ls))"
    by (rule pick_channels_valid [OF assms(2)])
  have "\<forall>i \<in> set (map (index_of (ch_names (raw slf))) (l # ls)). i < length (raw_data (raw slf))"
    using assms by (auto simp: index_of_less)
  then have "raw_get_data (raw slf) (map (index_of (ch_names (raw slf))) (l # ls)) =
          Inr (map (channel_samples (raw slf)) (l # ls))"
    unfolding raw_get_data_def by (auto simp: channel_samples_def not_le [symmetric])
  with p show ?thesis by (simp del: pick_channels.simps)
qed

lemma map_of_dict_set: "map_of (dict_set acc k v) = (map_of acc)(k \<mapsto> v)"
  by (induction acc) (auto simp: fun_eq_iff)

lemma json_channels_map_of:
  assumes "\<forall>j < length rest. i + j < length d \<and> d ! (i + j) = g (rest ! j)"
  shows "\<exists>chans. json_channels d i rest acc = Inr chans
           \<and> (\<forall>n. map_of chans n = (if n \<in> set rest then Some (g n) else map_of acc n))"
  using assms
proof (induction rest arbitrary: i acc)
  case Nil
  show ?case by simp
next
  case (Cons a rest)
  from Cons.prems have h: "i < length d" "d ! i = g a" by force+
  have "\<forall>j < length rest. Suc i + j < length d \<and> d ! (Suc i + j) = g (rest ! j)"
  proof (intro allI impI)
    fix j assume "j < length rest"
    then have "Suc j < length (a # rest)" by simp
    with Cons.prems have "i + Suc j < length d \<and> d ! (i + Suc j) = g ((a # rest) ! Suc j)"
      by blast
    then show "Suc i + j < length d \<and> d ! (Suc i + j) = g (rest ! j)" by simp
  qed
  from Cons.IH [OF this, of "dict_set acc a (d ! i)"]
  obtain chans where c: "json_channels d (Suc i) rest (dict_set acc a (d ! i)) = Inr chans"
    and m: "\<forall>n. map_of chans n =
              (if n \<in> set rest then Some (g n) else map_of (dict_set acc a (d ! i)) n)"
    by blast
  from c h have "json_channels d i (a # rest) acc = Inr chans" by simp
  moreover from m h have "\<forall>n. map_of chans n =
      (if n \<in> set (a # rest) then Some (g n) else map_of acc n)"
    by (simp add: map_of_dict_set)
  ultimately show ?case by blast
qed

lemma json_channels_distinct:
  assumes "\<forall>j < length rest. i + j < length d \<and> d ! (i + j) = g (rest ! j)"
    and "distinct rest" and "set rest \<inter> fst ` set acc = {}"
  shows "json_channels d i rest acc = Inr (acc @ map (\<lambda>n. (n, g n)) rest)"
  using assms
proof (induction rest arbitrary: i acc)
  case Nil
  show ?case by simp
next
  case (Cons a rest)
  from Cons.prems(1) have h: "i < length d" "d ! i = g a" by force+
  have s: "\<forall>j < length rest. Suc i + j < length d \<and> d ! (Suc i + j) = g (rest ! j)"
  proof (intro allI impI)
    fix j assume "j < length rest"
    then have "Suc j < length (a # rest)" by simp
    with Cons.prems(1) have "i + Suc j < length d \<and> d ! (i + Suc j) = g ((a # rest) ! Suc j)"
      by blast
    then show "Suc i + j < length d \<and> d ! (Suc i + j) = g (rest ! j)" by simp
  qed
  have fresh: "a \<notin> fst ` set acc" using Cons.prems(3) by auto
  have ds: "dict_set acc a (d ! i) = acc @ [(a, g a)]"
    using dict_set_fresh [OF fresh] h by simp
  have disj: "set rest \<inter> fst ` set (acc @ [(a, g a)]) = {}"
    using Cons.prems(2,3) by auto
  have "json_channels d (Suc i) rest (acc @ [(a, g a)]) =
          Inr ((acc @ [(a, g a)]) @ map (\<lambda>n. (n, g n)) rest)"
    using Cons.IH [OF s _ disj] Cons.prems(2) by simp
  with h ds show ?case by simp
qed


text \<open>
  C5. With a non-empty list of labels that the recording has, each export presents the
  channels in the order the caller gave, and what is labelled with a name holds the samples
  of the channel of that name: the CSV header and columns, the keys and arrays of the JSON
  \<open>channels\<close> object, and the archive's \<open>channel_names\<close> and rows of \<open>data\<close>. Channel picking
  is \<open>pick_channels\<close>, the caller-order picking the specification describes.
\<close>

theorem filtered_export_in_caller_order:
  assumes "rectangular (raw (self w))"
    and "set (l # ls) \<subseteq> set (ch_names (raw (self w)))"
    and "writable w p" and "writable w (npz_path p)"
    and "m \<longrightarrow> raw_times (raw (self w)) \<noteq> []"
  shows
    "files (snd (to_csv pick_channels p (Some (l # ls)) t w)) p =
       Some (CSV (((if t then [Str ''Time''] else []) @ map Str (l # ls)) #
                  map (\<lambda>i. (if t then [Num (raw_times (raw (self w)) ! i)] else []) @
                           map (\<lambda>n. Num (channel_samples (raw (self w)) n ! i)) (l # ls))
                      [0..<length (raw_times (raw (self w)))]))
     \<and> (\<exists>doc. files (snd (to_json pick_channels p (Some (l # ls)) m w)) p = Some (JSON doc)
           \<and> data_times doc = raw_times (raw (self w))
           \<and> (\<forall>n \<in> set (l # ls).
                 map_of (data_channels doc) n = Some (channel_samples (raw (self w)) n))
           \<and> (distinct (l # ls) \<longrightarrow>
                 data_channels doc = map (\<lambda>n. (n, channel_samples (raw (self w)) n)) (l # ls)))
     \<and> files (snd (to_numpy pick_channels p (Some (l # ls)) w)) (npz_path p) =
         Some (NPZ [(''data'', Matrix (map (channel_samples (raw (self w))) (l # ls))),
                    (''times'', Vector (raw_times (raw (self w)))),
                    (''channel_names'', Names (l # ls)),
                    (''sampling_rate'', Scalar (sfreq (raw (self w))))])"
proof -
  let ?r = "raw (self w)"
  let ?g = "channel_samples ?r"
  let ?d = "map ?g (l # ls)"
  have len: "length (raw_data ?r) = length (ch_names ?r)"
    using assms(1) by (simp add: rectangular_def)
  have gd: "get_data pick_channels (self w) (Some (l # ls)) = Inr (?d, raw_times ?r)"
    by (rule get_data_picked [OF len assms(2)])
  have shape: "\<forall>row \<in> set ?d. length row = length (raw_times ?r)"
    using get_data_rows [OF gd] assms(1) by (auto simp: rectangular_def)
  have csv: "files (snd (to_csv pick_channels p (Some (l # ls)) t w)) p =
       Some (CSV (((if t then [Str ''Time''] else []) @ map Str (l # ls)) #
                  map (\<lambda>i. (if t then [Num (raw_times ?r ! i)] else []) @
                           map (\<lambda>n. Num (?g n ! i)) (l # ls))
                      [0..<length (raw_times ?r)]))"
  proof -
    have "\<forall>row \<in> set ?d. length (raw_times ?r) \<le> length row" using shape by simp
    from to_csv_success [OF gd this assms(3), of t] show ?thesis by (simp add: o_def)
  qed
  have idx: "\<forall>j < length (l # ls). 0 + j < length ?d \<and> ?d ! (0 + j) = ?g ((l # ls) ! j)"
    by (simp del: list.map)
  obtain chans where jc: "json_channels ?d 0 (l # ls) [] = Inr chans"
    and mo: "\<forall>n. map_of chans n = (if n \<in> set (l # ls) then Some (?g n) else map_of [] n)"
    using json_channels_map_of [OF idx, of "[]"] by blast
  have dist: "distinct (l # ls) \<longrightarrow> chans = map (\<lambda>n. (n, ?g n)) (l # ls)"
  proof
    assume "distinct (l # ls)"
    from json_channels_distinct [OF idx this, of "[]"] jc
    show "chans = map (\<lambda>n. (n, ?g n)) (l # ls)" by simp
  qed
  have meta: "\<exists>mt. (if m then map_sum id Some (get_info (self w)) else Inr None) = Inr mt"
    using assms(5) by (simp add: get_info_def)
  then obtain mt where mt: "(if m then map_sum id Some (get_info (self w)) else Inr None) = Inr mt"
    by blast
  have js: "files (snd (to_json pick_channels p (Some (l # ls)) m w)) p =
              Some (JSON \<lparr>metadata = mt, data_times = raw_times ?r, data_channels = chans\<rparr>)"
    unfolding to_json_def using gd mt jc assms(3)
    by (simp del: get_data.simps json_channels.simps list.map)
  have json: "\<exists>doc. files (snd (to_json pick_channels p (Some (l # ls)) m w)) p = Some (JSON doc)
           \<and> data_times doc = raw_times ?r
           \<and> (\<forall>n \<in> set (l # ls). map_of (data_channels doc) n = Some (?g n))
           \<and> (distinct (l # ls) \<longrightarrow> data_channels doc = map (\<lambda>n. (n, ?g n)) (l # ls))"
    using js mo dist by (intro exI [of _ "\<lparr>metadata = mt, data_times = raw_times ?r, data_channels = chans\<rparr>"]) simp
  have npz: "files (snd (to_numpy pick_channels p (Some (l # ls)) w)) (npz_path p) =
         Some (NPZ [(''data'', Matrix ?d),
                    (''times'', Vector (raw_times ?r)),
                    (''channel_names'', Names (l # ls)),
                    (''sampling_rate'', Scalar (sfreq ?r))])"
    unfolding to_numpy_def using gd assms(4)
    by (simp del: get_data.simps list.map)
  from csv json npz show ?thesis by (simp only: simp_thms)
qed

theorem filtered_export_in_caller_order_witness:
  "files (snd (to_csv pick_channels ''out.csv'' (Some [''B'', ''A'']) True two_rates_world))
         ''out.csv'' =
     Some (CSV [[Str ''Time'', Str ''B'', Str ''A''],
                [Num 0, Num 10, Num 1],
                [Num (1 / 4), Num 15, Num 2],
                [Num (1 / 2), Num 20, Num 3],
                [Num (3 / 4), Num 15, Num 4]])"
proof -
  have r: "rectangular (raw (self two_rates_world))"
    by (simp add: rectangular_def two_rates_world_def two_rates_def two_rates_raw_def)
  have v: "set [''B'', ''A''] \<subseteq> set (ch_names (raw (self two_rates_world)))"
    by (simp add: two_rates_world_def two_rates_def two_rates_raw_def)
  have w1: "writable two_rates_world ''out.csv''"
    and w2: "writable two_rates_world (npz_path ''out.csv'')"
    by (simp_all add: two_rates_world_def npz_path_def)
  have m: "True \<longrightarrow> raw_times (raw (self two_rates_world)) \<noteq> []"
    by (simp add: two_rates_world_def two_rates_def two_rates_raw_def)
  from filtered_export_in_caller_order [OF r v w1 w2 m, of True] show ?thesis
    by (simp add: channel_samples_def two_rates_world_def two_rates_def two_rates_raw_def upt_rec)
qed

text \<open>
  The agreement of labels and columns rests on the picker: the exporters take the labels
  from the caller's list and the rows from the picker. With a picker that keeps the
  recording's order, the request \<open>B, A\<close> yields the header \<open>B, A\<close> over the columns of
  \<open>A\<close> and \<open>B\<close>.
\<close>

lemma labels_follow_the_caller_rows_the_picker:
  "files (snd (to_csv pick_in_recording_order ''out.csv'' (Some [''B'', ''A'']) True
                two_rates_world)) ''out.csv'' =
     Some (CSV [[Str ''Time'', Str ''B'', Str ''A''],
                [Num 0, Num 1, Num 10],
                [Num (1 / 4), Num 2, Num 15],
                [Num (1 / 2), Num 3, Num 20],
                [Num (3 / 4), Num 4, Num 15]])"
  by (simp add: to_csv_def pick_in_recording_order_def raw_get_data_def two_rates_world_def
      two_rates_def two_rates_raw_def upt_rec Let_def)

end
